theory Spec2Isabelle
  imports Main "HOL-Library.Word" "HOL-Library.Multiset"
begin

section \<open>carbonapi: the scatter/gather proxy of main.go\<close>

text \<open>
  A shallow embedding of the request path of \<^verbatim>\<open>main.go\<close>: the gather loop of
  \<^verbatim>\<open>multiGet\<close>, the find aggregator \<^verbatim>\<open>findHandlerPB\<close> with the cache update of
  \<^verbatim>\<open>findHandler\<close>, the backend selection of \<^verbatim>\<open>renderHandler\<close>, and the render merger
  \<^verbatim>\<open>handleRenderPB\<close> / \<^verbatim>\<open>mergeValues\<close>.

  Conventions. A Go slice is a list; where the code tells a nil slice from an empty one
  the model says so. An index expression that Go checks at run time is a branch of the
  model that returns \<open>Inl IndexOutOfRange\<close>. The expvar counters are integers passed
  in and returned. The sample type \<open>float64\<close> is a type parameter \<open>'v\<close>: the merger
  only copies samples, and the JSON encoder takes its test on samples as a parameter. \<open>proto.Unmarshal\<close> belongs to a library and is a parameter
  that returns \<open>None\<close> where the library returns an error.
\<close>

subsection \<open>Data\<close>

type_synonym byte = "8 word"
type_synonym int32 = "32 word"

datatype error = IndexOutOfRange

text \<open>\<^verbatim>\<open>type serverResponse struct { server string; response []byte }\<close>; a nil
  \<^verbatim>\<open>response\<close> is \<open>None\<close>.\<close>

record serverResponse =
  server :: string
  response :: "byte list option"

text \<open>\<^verbatim>\<open>pb.FetchResponse\<close>, with the fields that main.go reads.\<close>

record 'v FetchResponse =
  Name :: string
  StartTime :: int32
  StopTime :: int32
  StepTime :: int32
  Values :: "'v list"
  IsAbsent :: "bool list"

text \<open>\<^verbatim>\<open>pb.GlobMatch\<close> and \<^verbatim>\<open>pb.GlobResponse\<close> (its \<^verbatim>\<open>Name\<close> is \<open>Name_Glob\<close>
  here, the field name being taken by \<open>FetchResponse\<close>).\<close>

record GlobMatch =
  Path :: string
  IsLeaf :: bool

record GlobResponse =
  Name_Glob :: string
  Matches :: "GlobMatch list"

text \<open>
  The fields of \<^verbatim>\<open>Config\<close> that the request path reads. \<^verbatim>\<open>metricPaths\<close> is a
  \<^verbatim>\<open>map[string][]string\<close>: a key is missing (\<open>None\<close>), or bound to a slice that is
  nil (\<open>Some None\<close>) or a list (\<open>Some (Some bs)\<close>). The two timeouts are the
  configured numbers of milliseconds; the model stores them in the timers it records
  and computes nothing with them.
\<close>

record Config =
  Backends :: "string list"
  TimeoutMs :: int
  TimeoutMsAfterFirstSeen :: int
  metricPaths :: "string \<rightharpoonup> string list option"

text \<open>The expvar counters of \<^verbatim>\<open>Metrics\<close>.\<close>

record Metrics =
  FindRequests :: int
  FindErrors :: int
  RenderRequests :: int
  RenderErrors :: int
  Timeouts :: int

subsection \<open>singleGet and multiGet\<close>

text \<open>
  What the network does to one \<^verbatim>\<open>singleGet\<close>: \<^verbatim>\<open>url.Parse\<close> fails, the request
  fails, or a status code arrives with a body that \<^verbatim>\<open>ioutil.ReadAll\<close> reads
  (\<open>Some\<close>) or fails to read (\<open>None\<close>).
\<close>

datatype fetch = UrlParseError | TransportError | Status nat "byte list option"

text \<open>The one message that \<^verbatim>\<open>singleGet\<close> sends on the channel.\<close>

definition singleGet :: "string \<Rightarrow> string \<Rightarrow> fetch \<Rightarrow> serverResponse" where
  "singleGet uri srv outcome =
     (case outcome of
        UrlParseError \<Rightarrow> \<lparr>server = srv, response = None\<rparr>
      | TransportError \<Rightarrow> \<lparr>server = srv, response = None\<rparr>
      | Status code rd \<Rightarrow>
          if code = 404 then \<lparr>server = srv, response = None\<rparr>
          else if code \<noteq> 200 then \<lparr>server = srv, response = None\<rparr>
          else (case rd of
                  None \<Rightarrow> \<lparr>server = srv, response = None\<rparr>
                | Some b \<Rightarrow> \<lparr>server = srv, response = Some b\<rparr>))"

text \<open>
  The timer that \<^verbatim>\<open>time.After(time.Duration(ms) * time.Millisecond)\<close> makes when it is
  called at instant \<open>now\<close> is \<open>After now ms\<close>. When the runtime delivers on its
  channel is not modelled: the choices of \<^verbatim>\<open>select\<close> are given by a schedule (below).
\<close>

datatype timer = After int int

text \<open>
  The variables of \<^verbatim>\<open>multiGet\<close>: \<open>started\<close> lists the calls
  \<^verbatim>\<open>go singleGet(uri, server, ch)\<close> of its first loop, as \<open>(uri, server)\<close>;
  \<open>gathered\<close> is the local \<^verbatim>\<open>response\<close>, \<open>timeout\<close> the timer last assigned to
  \<^verbatim>\<open>timeout\<close>, \<open>timeouts\<close> is \<^verbatim>\<open>Metrics.Timeouts\<close>.
\<close>

record gather_state =
  started :: "(string \<times> string) list"
  gathered :: "serverResponse list"
  isFirstResponse :: bool
  timeout :: timer
  timeouts :: int

text \<open>
  The loop \<^verbatim>\<open>GATHER\<close>, with the number of iterations left. The schedule lists the
  receipts \<^verbatim>\<open>case r := <-ch\<close> that \<^verbatim>\<open>select\<close> takes, in order: the instant of the
  receipt and the index of the goroutine whose message it is; \<open>ch k\<close> is the
  message of goroutine \<open>k\<close>. When the schedule is used up while iterations are left,
  \<^verbatim>\<open>select\<close> takes \<^verbatim>\<open>case <-timeout\<close>. The statements of one iteration run at
  the instant of its receipt.
\<close>

fun gatherLoop ::
  "int \<Rightarrow> (nat \<Rightarrow> serverResponse) \<Rightarrow> nat \<Rightarrow> (int \<times> nat) list \<Rightarrow> gather_state \<Rightarrow> gather_state" where
  "gatherLoop tfirst ch 0 sched st = st"
| "gatherLoop tfirst ch (Suc n) [] st = st\<lparr>timeouts := timeouts st + 1\<rparr>"
| "gatherLoop tfirst ch (Suc n) ((now, k) # sched) st =
     (let r = ch k in
      if response r \<noteq> None
      then gatherLoop tfirst ch n sched
             (st\<lparr>gathered := gathered st @ [r],
                 timeout := (if isFirstResponse st then After now tfirst else timeout st),
                 isFirstResponse := False\<rparr>)
      else gatherLoop tfirst ch n sched st)"

text \<open>
  \<^verbatim>\<open>multiGet(servers, uri)\<close> started at instant \<open>t0\<close>: one goroutine is started
  for every entry of \<open>servers\<close>; goroutine \<open>k\<close> runs
  \<^verbatim>\<open>singleGet(uri, servers[k], ch)\<close> and meets \<open>net k\<close>. \<open>gather\<close> is the state
  in which the loop is left, \<open>multiGet\<close> the slice returned.
\<close>

definition gather ::
  "Config \<Rightarrow> string list \<Rightarrow> string \<Rightarrow> (nat \<Rightarrow> fetch) \<Rightarrow> int \<Rightarrow> (int \<times> nat) list \<Rightarrow> int
     \<Rightarrow> gather_state" where
  "gather cfg servers uri net t0 sched tmo =
     gatherLoop (TimeoutMsAfterFirstSeen cfg) (\<lambda>k. singleGet uri (servers ! k) (net k))
       (length servers) sched
       \<lparr>started = map (\<lambda>server. (uri, server)) servers,
        gathered = [], isFirstResponse = True, timeout = After t0 (TimeoutMs cfg),
        timeouts = tmo\<rparr>"

definition multiGet ::
  "Config \<Rightarrow> string list \<Rightarrow> string \<Rightarrow> (nat \<Rightarrow> fetch) \<Rightarrow> int \<Rightarrow> (int \<times> nat) list
     \<Rightarrow> serverResponse list" where
  "multiGet cfg servers uri net t0 sched = gathered (gather cfg servers uri net t0 sched 0)"

subsection \<open>mergeValues\<close>

text \<open>
  The inner loop \<^verbatim>\<open>for other := 1; other < len(decoded); other++\<close> at base index
  \<open>i\<close>, run over the peers \<open>decoded[1:]\<close>. The result carries the metric, the
  \<^verbatim>\<open>RenderErrors\<close> counter and \<^verbatim>\<open>responseLengthMismatch\<close>. The loop leaves
  only through the \<^verbatim>\<open>break\<close> of the length test or at the end of the peers.
\<close>

fun scanPeers ::
  "nat \<Rightarrow> 'v FetchResponse list \<Rightarrow> 'v FetchResponse \<Rightarrow> int
     \<Rightarrow> error + ('v FetchResponse \<times> int \<times> bool)" where
  "scanPeers i [] metric errs = Inr (metric, errs, False)"
| "scanPeers i (m # ms) metric errs =
     (if length (Values m) \<noteq> length (Values metric) then Inr (metric, errs + 1, True)
      else if \<not> i < length (IsAbsent m) then Inl IndexOutOfRange
      else if \<not> IsAbsent m ! i then
        (if \<not> (i < length (IsAbsent metric) \<and> i < length (Values metric) \<and> i < length (Values m))
         then Inl IndexOutOfRange
         else scanPeers i ms
                (metric\<lparr>IsAbsent := (IsAbsent metric)[i := False],
                        Values := (Values metric)[i := Values m ! i]\<rparr>) errs)
      else scanPeers i ms metric errs)"

text \<open>The outer loop \<^verbatim>\<open>for i := range metric.Values\<close>, over the indices still to
  visit.\<close>

fun mergeLoop ::
  "nat list \<Rightarrow> 'v FetchResponse list \<Rightarrow> 'v FetchResponse \<times> int \<times> bool
     \<Rightarrow> error + ('v FetchResponse \<times> int \<times> bool)" where
  "mergeLoop [] peers st = Inr st"
| "mergeLoop (i # is) peers (metric, errs, responseLengthMismatch) =
     (if \<not> i < length (IsAbsent metric) then Inl IndexOutOfRange
      else if \<not> IsAbsent metric ! i \<or> responseLengthMismatch
      then mergeLoop is peers (metric, errs, responseLengthMismatch)
      else (case scanPeers i peers metric errs of
              Inl e \<Rightarrow> Inl e
            | Inr st' \<Rightarrow> mergeLoop is peers st'))"

text \<open>\<^verbatim>\<open>mergeValues(req, &metric, decoded)\<close>: returns the mutated metric and the
  counter.\<close>

definition mergeValues ::
  "'v FetchResponse \<Rightarrow> 'v FetchResponse list \<Rightarrow> int \<Rightarrow> error + ('v FetchResponse \<times> int)" where
  "mergeValues metric decoded errs =
     (case mergeLoop [0..<length (Values metric)] (drop 1 decoded) (metric, errs, False) of
        Inl e \<Rightarrow> Inl e
      | Inr (metric', errs', _) \<Rightarrow> Inr (metric', errs'))"

text \<open>The bytes handed to \<^verbatim>\<open>proto.Unmarshal\<close>: a nil slice is read as no bytes.\<close>

definition body :: "serverResponse \<Rightarrow> byte list" where
  "body r = (case response r of None \<Rightarrow> [] | Some b \<Rightarrow> b)"

subsection \<open>Replies and encoders\<close>

text \<open>
  The Go values handed to the JSON and pickle encoders: the nil interface, a nil slice,
  \<^verbatim>\<open>pickle.None{}\<close>, scalars, a slice, a \<^verbatim>\<open>map[string]interface{}\<close> (its entries in
  the order of the map literal; a Go map has no order) and a \<^verbatim>\<open>*pb.GlobMatch\<close>.
\<close>

datatype 'v iface =
    Nil
  | NilSlice
  | PickleNone
  | Str string
  | Bool bool
  | Int32 int32
  | Float64 'v
  | Slice "'v iface list"
  | MapSI "(string \<times> 'v iface) list"
  | GlobMatchPtr GlobMatch

text \<open>What a handler writes: the argument of \<^verbatim>\<open>proto.Marshal\<close> or of an encoder's
  \<^verbatim>\<open>Encode\<close>.\<close>

datatype 'v written =
    Protobuf_Glob GlobResponse
  | Protobuf_Fetch "'v FetchResponse"
  | JSON "'v iface"
  | Pickle "'v iface"

text \<open>
  What a handler does with its \<^verbatim>\<open>http.ResponseWriter\<close>: \<^verbatim>\<open>http.Error\<close> with a
  message and a status, or a Content-Type header and a write, or nothing at all when
  the \<^verbatim>\<open>switch format\<close> has no matching case. net/http sends status 200 in the
  last two cases.
\<close>

datatype 'v reply = HttpError nat string | Wrote string "'v written" | NoWrite

fun status :: "'v reply \<Rightarrow> nat" where
  "status (HttpError code msg) = code"
| "status (Wrote ctype w) = 200"
| "status NoWrite = 200"






subsection \<open>findHandlerPB and findHandler\<close>

text \<open>The loop \<^verbatim>\<open>for _, match := range metric.Matches\<close> for the response of one
  server.\<close>

fun matchLoop ::
  "string \<Rightarrow> GlobMatch list \<Rightarrow> GlobMatch list \<times> (string \<rightharpoonup> string list)
     \<Rightarrow> GlobMatch list \<times> (string \<rightharpoonup> string list)" where
  "matchLoop srv [] (metrics, paths) = (metrics, paths)"
| "matchLoop srv (match # ms) (metrics, paths) =
     (case paths (Path match) of
        None \<Rightarrow> matchLoop srv ms (metrics @ [match], paths(Path match \<mapsto> [] @ [srv]))
      | Some p \<Rightarrow> matchLoop srv ms (metrics, paths(Path match \<mapsto> p @ [srv])))"

text \<open>The loop \<^verbatim>\<open>for _, r := range responses\<close>; a body that fails to decode adds
  one to \<^verbatim>\<open>FindErrors\<close> and is skipped.\<close>

fun findLoop ::
  "(byte list \<Rightarrow> GlobResponse option) \<Rightarrow> serverResponse list
     \<Rightarrow> GlobMatch list \<times> (string \<rightharpoonup> string list) \<times> int
     \<Rightarrow> GlobMatch list \<times> (string \<rightharpoonup> string list) \<times> int" where
  "findLoop unmarshal [] st = st"
| "findLoop unmarshal (r # rs) (metrics, paths, errs) =
     (case unmarshal (body r) of
        None \<Rightarrow> findLoop unmarshal rs (metrics, paths, errs + 1)
      | Some metric \<Rightarrow>
          (case matchLoop (server r) (Matches metric) (metrics, paths) of
             (metrics', paths') \<Rightarrow> findLoop unmarshal rs (metrics', paths', errs)))"

definition findHandlerPB ::
  "(byte list \<Rightarrow> GlobResponse option) \<Rightarrow> serverResponse list \<Rightarrow> int
     \<Rightarrow> GlobMatch list \<times> (string \<rightharpoonup> string list) \<times> int" where
  "findHandlerPB unmarshal responses errs = findLoop unmarshal responses ([], Map.empty, errs)"

text \<open>\<^verbatim>\<open>for k, v := range paths { Config.metricPaths[k] = v }\<close>.\<close>

definition updateCache ::
  "(string \<rightharpoonup> string list option) \<Rightarrow> (string \<rightharpoonup> string list) \<Rightarrow> (string \<rightharpoonup> string list option)" where
  "updateCache cache paths = (\<lambda>k. case paths k of None \<Rightarrow> cache k | Some v \<Rightarrow> Some (Some v))"

text \<open>The \<^verbatim>\<open>switch format\<close> of \<^verbatim>\<open>findHandler\<close>; \<open>metrics\<close> is nil when it is
  empty, and so is the pickled \<^verbatim>\<open>result\<close>.\<close>

definition findWrite :: "string \<Rightarrow> string \<Rightarrow> GlobMatch list \<Rightarrow> 'v reply" where
  "findWrite format query metrics =
     (if format = ''protobuf''
      then Wrote ''application/protobuf'' (Protobuf_Glob \<lparr>Name_Glob = query, Matches = metrics\<rparr>)
      else if format = ''json''
      then Wrote ''application/json''
             (JSON (if metrics = [] then NilSlice else Slice (map GlobMatchPtr metrics)))
      else if format = [] \<or> format = ''pickle''
      then Wrote ''application/pickle''
             (Pickle (if metrics = [] then NilSlice
                      else Slice (map (\<lambda>metric. MapSI [(''metric_path'', Str (Path metric)),
                                                        (''isLeaf'', Bool (IsLeaf metric))]) metrics)))
      else NoWrite)"

text \<open>
  \<^verbatim>\<open>findHandler\<close>. \<open>uri\<close> is the rewritten request URI, \<open>query\<close> and \<open>format\<close>
  are the form values; \<open>net\<close>, \<open>t0\<close> and \<open>sched\<close> are what \<^verbatim>\<open>multiGet\<close> meets.
\<close>

definition findHandler ::
  "(byte list \<Rightarrow> GlobResponse option) \<Rightarrow> Config \<Rightarrow> Metrics \<Rightarrow> string \<Rightarrow> string \<Rightarrow> string
     \<Rightarrow> (nat \<Rightarrow> fetch) \<Rightarrow> int \<Rightarrow> (int \<times> nat) list \<Rightarrow> 'v reply \<times> Config \<times> Metrics" where
  "findHandler unmarshal cfg m format query uri net t0 sched =
     (let m1 = m\<lparr>FindRequests := FindRequests m + 1\<rparr>;
          g = gather cfg (Backends cfg) uri net t0 sched (Timeouts m1);
          responses = gathered g;
          m2 = m1\<lparr>Timeouts := timeouts g\<rparr>
      in if length responses = 0
         then (HttpError 500 ''find: error querying backends'', cfg, m2)
         else (case findHandlerPB unmarshal responses (FindErrors m2) of
                 (metrics, paths, ferrs) \<Rightarrow>
                   (findWrite format query metrics,
                    cfg\<lparr>metricPaths := updateCache (metricPaths cfg) paths\<rparr>,
                    m2\<lparr>FindErrors := ferrs\<rparr>)))"

subsection \<open>createRenderResponse and returnRender\<close>

text \<open>The loop \<^verbatim>\<open>for i, v := range metric.Values\<close> that builds \<^verbatim>\<open>pvalues\<close>.\<close>

fun pvaluesLoop ::
  "bool list \<Rightarrow> 'v iface \<Rightarrow> nat \<Rightarrow> 'v list \<Rightarrow> 'v iface list \<Rightarrow> error + 'v iface list" where
  "pvaluesLoop absent missing i [] pvalues = Inr pvalues"
| "pvaluesLoop absent missing i (v # vs) pvalues =
     (if \<not> i < length absent then Inl IndexOutOfRange
      else if absent ! i then pvaluesLoop absent missing (Suc i) vs (pvalues @ [missing])
      else pvaluesLoop absent missing (Suc i) vs (pvalues @ [Float64 v]))"

definition createRenderResponse :: "'v FetchResponse \<Rightarrow> 'v iface \<Rightarrow> error + 'v iface" where
  "createRenderResponse metric missing =
     (case pvaluesLoop (IsAbsent metric) missing 0 (Values metric) [] of
        Inl e \<Rightarrow> Inl e
      | Inr pvalues \<Rightarrow>
          Inr (MapSI [(''start'', Int32 (StartTime metric)),
                      (''step'', Int32 (StepTime metric)),
                      (''end'', Int32 (StopTime metric)),
                      (''name'', Str (Name metric)),
                      (''values'', if pvalues = [] then NilSlice else Slice pvalues)]))"

definition returnRender :: "string \<Rightarrow> 'v FetchResponse \<Rightarrow> error + 'v reply" where
  "returnRender format metric =
     (if format = ''protobuf''
      then Inr (Wrote ''application/protobuf'' (Protobuf_Fetch metric))
      else if format = ''json''
      then (case createRenderResponse metric Nil of
              Inl e \<Rightarrow> Inl e
            | Inr presponse \<Rightarrow> Inr (Wrote ''application/json'' (JSON presponse)))
      else if format = [] \<or> format = ''pickle''
      then (case createRenderResponse metric PickleNone of
              Inl e \<Rightarrow> Inl e
            | Inr presponse \<Rightarrow> Inr (Wrote ''application/pickle'' (Pickle (Slice [presponse]))))
      else Inr NoWrite)"

subsection \<open>handleRenderPB and renderHandler\<close>

text \<open>
  The decode loop of \<^verbatim>\<open>handleRenderPB\<close>: a body that fails to decode adds one to
  \<^verbatim>\<open>RenderErrors\<close> and is skipped, a decoded message is appended.
\<close>

fun decodeAll ::
  "(byte list \<Rightarrow> 'a option) \<Rightarrow> serverResponse list \<Rightarrow> 'a list \<Rightarrow> int \<Rightarrow> 'a list \<times> int" where
  "decodeAll unmarshal [] decoded errs = (decoded, errs)"
| "decodeAll unmarshal (r # rs) decoded errs =
     (case unmarshal (body r) of
        None \<Rightarrow> decodeAll unmarshal rs decoded (errs + 1)
      | Some d \<Rightarrow> decodeAll unmarshal rs (decoded @ [d]) errs)"

text \<open>
  \<^verbatim>\<open>for i, d := range decoded { if d.GetStepTime() < decoded[highest].GetStepTime() { highest = i } }\<close>
  over the indices still to visit; \<^verbatim>\<open>int32\<close> is compared as a signed number.
\<close>

fun highestLoop :: "'v FetchResponse list \<Rightarrow> nat list \<Rightarrow> nat \<Rightarrow> nat" where
  "highestLoop decoded [] highest = highest"
| "highestLoop decoded (i # is) highest =
     highestLoop decoded is
       (if StepTime (decoded ! i) <s StepTime (decoded ! highest) then i else highest)"

definition highestResolution :: "'v FetchResponse list \<Rightarrow> nat" where
  "highestResolution decoded = highestLoop decoded [0..<length decoded] 0"

text \<open>\<^verbatim>\<open>decoded[0], decoded[highest] = decoded[highest], decoded[0]\<close>: both right-hand
  sides are read before either store.\<close>

definition swapBase :: "'v FetchResponse list \<Rightarrow> nat \<Rightarrow> 'v FetchResponse list" where
  "swapBase decoded highest = decoded[0 := decoded ! highest, highest := decoded ! 0]"

text \<open>\<^verbatim>\<open>handleRenderPB\<close>, with \<^verbatim>\<open>Metrics.RenderErrors\<close> passed in and returned;
  \<open>uri\<close> is \<^verbatim>\<open>req.URL.RequestURI()\<close>.\<close>

definition handleRenderPB ::
  "(byte list \<Rightarrow> 'v FetchResponse option) \<Rightarrow> string \<Rightarrow> string \<Rightarrow> serverResponse list \<Rightarrow> int
     \<Rightarrow> error + ('v reply \<times> int)" where
  "handleRenderPB unmarshal uri format responses errs =
     (case decodeAll unmarshal responses [] errs of (decoded, errs1) \<Rightarrow>
        if length decoded = 0
        then Inr (HttpError 500 (''no decoded responses to merge for req: '' @ uri), errs1 + 1)
        else if length decoded = 1
        then (case returnRender format (decoded ! 0) of
                Inl e \<Rightarrow> Inl e
              | Inr rep \<Rightarrow> Inr (rep, errs1))
        else (let working = swapBase decoded (highestResolution decoded);
                  metric = working ! 0
              in case mergeValues metric working errs1 of
                   Inl e \<Rightarrow> Inl e
                 | Inr (metric', errs2) \<Rightarrow>
                     (case returnRender format metric' of
                        Inl e \<Rightarrow> Inl e
                      | Inr rep \<Rightarrow> Inr (rep, errs2))))"

text \<open>Lines 289-296 of \<^verbatim>\<open>renderHandler\<close>: the server list for a target.\<close>

definition serverListFor :: "Config \<Rightarrow> string \<Rightarrow> string list" where
  "serverListFor cfg target =
     (case metricPaths cfg target of
        None \<Rightarrow> Backends cfg
      | Some None \<Rightarrow> Backends cfg
      | Some (Some serverList) \<Rightarrow> if length serverList = 0 then Backends cfg else serverList)"

text \<open>\<^verbatim>\<open>renderHandler\<close>; \<open>requri\<close> is \<^verbatim>\<open>req.URL.RequestURI()\<close>, \<open>uri\<close> is the
  rewritten URI that goes to the backends. The first component of the result lists
  the goroutines \<^verbatim>\<open>go singleGet(uri, server, ch)\<close> that the request has started, the
  second is what the handler does with the \<^verbatim>\<open>http.ResponseWriter\<close> and the counters.\<close>

definition renderHandler ::
  "(byte list \<Rightarrow> 'v FetchResponse option) \<Rightarrow> Config \<Rightarrow> Metrics \<Rightarrow> string \<Rightarrow> string \<Rightarrow> string
     \<Rightarrow> string \<Rightarrow> (nat \<Rightarrow> fetch) \<Rightarrow> int \<Rightarrow> (int \<times> nat) list
     \<Rightarrow> (string \<times> string) list \<times> (error + ('v reply \<times> Metrics))" where
  "renderHandler unmarshal cfg m target format requri uri net t0 sched =
     (let m1 = m\<lparr>RenderRequests := RenderRequests m + 1\<rparr>
      in if target = [] then ([], Inr (HttpError 400 ''empty target'', m1))
         else (let serverList = serverListFor cfg target;
                   g = gather cfg serverList uri net t0 sched (Timeouts m1);
                   responses = gathered g;
                   m2 = m1\<lparr>Timeouts := timeouts g\<rparr>
               in (started g,
                   if length responses = 0
                   then Inr (HttpError 500 ''render: error querying backends'',
                             m2\<lparr>RenderErrors := RenderErrors m2 + 1\<rparr>)
                   else (case handleRenderPB unmarshal requri format responses (RenderErrors m2) of
                           Inl e \<Rightarrow> Inl e
                         | Inr (rep, errs) \<Rightarrow> Inr (rep, m2\<lparr>RenderErrors := errs\<rparr>)))))"

subsection \<open>The union by path, stated on lists\<close>

text \<open>
  The find aggregator is compared with three list functions that follow the wording of
  its specification. \<open>occurrences\<close> lists every match of every response that
  decodes, with the server that sent it, in shard-response order and then in match
  order. \<open>firstOccurrences\<close> keeps an occurrence when its path is not the path of an
  earlier one. \<open>routing\<close> maps an observed path to the servers of its occurrences,
  in order.
\<close>

definition occurrences ::
  "(byte list \<Rightarrow> GlobResponse option) \<Rightarrow> serverResponse list \<Rightarrow> (string \<times> GlobMatch) list" where
  "occurrences unmarshal responses =
     concat (map (\<lambda>r. case unmarshal (body r) of
                         None \<Rightarrow> []
                       | Some metric \<Rightarrow> map (\<lambda>match. (server r, match)) (Matches metric))
                 responses)"

definition firstOccurrences :: "(string \<times> GlobMatch) list \<Rightarrow> GlobMatch list" where
  "firstOccurrences occ =
     map (\<lambda>k. snd (occ ! k))
       (filter (\<lambda>k. Path (snd (occ ! k)) \<notin> set (map (\<lambda>e. Path (snd e)) (take k occ)))
          [0..<length occ])"

definition routing :: "(string \<times> GlobMatch) list \<Rightarrow> (string \<rightharpoonup> string list)" where
  "routing occ =
     (\<lambda>p. if p \<in> set (map (\<lambda>e. Path (snd e)) occ)
          then Some (map fst (filter (\<lambda>e. Path (snd e) = p) occ))
          else None)"

section \<open>Properties of the render merger\<close>

subsection \<open>The two loops of mergeValues\<close>

text \<open>Peers of the base's length that can be read at \<open>i\<close> are scanned to the end:
  every one that is present at \<open>i\<close> stores its sample, so the last one is kept.\<close>

lemma scanPeers_fill:
  assumes "\<forall>m\<in>set ps. length (Values m) = length (Values metric) \<and> i < length (IsAbsent m)"
    and "i < length (Values metric)" and "i < length (IsAbsent metric)"
  shows "scanPeers i (ps @ rest) metric errs =
         scanPeers i rest
           (let donors = filter (\<lambda>m. \<not> IsAbsent m ! i) ps in
            if donors = [] then metric
            else metric\<lparr>IsAbsent := (IsAbsent metric)[i := False],
                        Values := (Values metric)[i := Values (last donors) ! i]\<rparr>) errs"
  using assms
proof (induction ps arbitrary: metric)
  case Nil
  then show ?case by simp
next
  case (Cons m ms)
  show ?case
  proof (cases "IsAbsent m ! i")
    case True
    with Cons.prems Cons.IH [of metric] show ?thesis by simp
  next
    case False
    let ?m1 = "metric\<lparr>IsAbsent := (IsAbsent metric)[i := False],
                        Values := (Values metric)[i := Values m ! i]\<rparr>"
    have "scanPeers i (ms @ rest) ?m1 errs = scanPeers i rest
           (let donors = filter (\<lambda>m. \<not> IsAbsent m ! i) ms in
            if donors = [] then ?m1
            else ?m1\<lparr>IsAbsent := (IsAbsent ?m1)[i := False],
                        Values := (Values ?m1)[i := Values (last donors) ! i]\<rparr>) errs"
      using Cons.prems by (intro Cons.IH) simp_all
    with False Cons.prems show ?thesis by (simp add: Let_def)
  qed
qed

lemma mergeLoop_skip_present:
  assumes "\<forall>k\<in>set is. k < length (IsAbsent metric) \<and> \<not> IsAbsent metric ! k"
  shows "mergeLoop (is @ js) peers (metric, errs, b) = mergeLoop js peers (metric, errs, b)"
  using assms by (induction "is") simp_all

lemma mergeLoop_after_mismatch:
  assumes "\<forall>k\<in>set is. k < length (IsAbsent metric)"
  shows "mergeLoop is peers (metric, errs, True) = Inr (metric, errs, True)"
  using assms by (induction "is") simp_all

subsection \<open>Gap filling takes the last present peer\<close>

lemma mergeLoop_equal_length:
  assumes "distinct is" and "\<forall>k\<in>set is. k < length (Values metric)"
    and "length (IsAbsent metric) = length (Values metric)"
    and "\<forall>m\<in>set peers. length (Values m) = length (Values metric)
                         \<and> length (IsAbsent m) = length (Values m)"
  shows "\<exists>vs abs.
           mergeLoop is peers (metric, errs, False)
             = Inr (metric\<lparr>Values := vs, IsAbsent := abs\<rparr>, errs, False)
         \<and> length vs = length (Values metric) \<and> length abs = length (Values metric)
         \<and> (\<forall>i<length (Values metric).
               if i \<in> set is \<and> IsAbsent metric ! i \<and> filter (\<lambda>m. \<not> IsAbsent m ! i) peers \<noteq> []
               then \<not> abs ! i \<and> vs ! i = Values (last (filter (\<lambda>m. \<not> IsAbsent m ! i) peers)) ! i
               else abs ! i = IsAbsent metric ! i \<and> vs ! i = Values metric ! i)"
  using assms
proof (induction "is" arbitrary: metric)
  case Nil
  have "mergeLoop [] peers (metric, errs, False)
        = Inr (metric\<lparr>Values := Values metric, IsAbsent := IsAbsent metric\<rparr>, errs, False)"
    by simp
  with Nil.prems(3) show ?case
    by (intro exI [of _ "Values metric"] exI [of _ "IsAbsent metric"]) simp
next
  case (Cons i "is")
  let ?n = "length (Values metric)"
  let ?donors = "\<lambda>i. filter (\<lambda>m. \<not> IsAbsent m ! i) peers"
  from Cons.prems have i: "i < ?n" "i \<notin> set is" "distinct is" by auto
  show ?case
  proof (cases "IsAbsent metric ! i")
    case False
    from Cons.prems i
    obtain vs abs where
      run: "mergeLoop is peers (metric, errs, False)
            = Inr (metric\<lparr>Values := vs, IsAbsent := abs\<rparr>, errs, False)"
      and len: "length vs = ?n" "length abs = ?n"
      and pt: "\<forall>j<?n. if j \<in> set is \<and> IsAbsent metric ! j \<and> ?donors j \<noteq> []
                      then \<not> abs ! j \<and> vs ! j = Values (last (?donors j)) ! j
                      else abs ! j = IsAbsent metric ! j \<and> vs ! j = Values metric ! j"
      using Cons.IH [of metric] by auto
    from False Cons.prems(3) i(1) run
    have "mergeLoop (i # is) peers (metric, errs, False)
          = Inr (metric\<lparr>Values := vs, IsAbsent := abs\<rparr>, errs, False)"
      by simp
    moreover
    have "\<forall>j<?n. if j \<in> set (i # is) \<and> IsAbsent metric ! j \<and> ?donors j \<noteq> []
                 then \<not> abs ! j \<and> vs ! j = Values (last (?donors j)) ! j
                 else abs ! j = IsAbsent metric ! j \<and> vs ! j = Values metric ! j"
      using pt False by auto
    ultimately show ?thesis using len by blast
  next
    case True
    let ?m1 = "if ?donors i = [] then metric
               else metric\<lparr>IsAbsent := (IsAbsent metric)[i := False],
                           Values := (Values metric)[i := Values (last (?donors i)) ! i]\<rparr>"
    have pre: "\<forall>m\<in>set peers. length (Values m) = length (Values metric) \<and> i < length (IsAbsent m)"
      using Cons.prems(4) i(1) by auto
    have scan: "scanPeers i peers metric errs = Inr (?m1, errs, False)"
      using scanPeers_fill [OF pre i(1), of "[]" errs] Cons.prems(3) i(1)
      by (simp add: Let_def)
    have shape1: "length (Values ?m1) = ?n" "length (IsAbsent ?m1) = length (Values ?m1)"
      using Cons.prems(3) by auto
    have peers1: "\<forall>m\<in>set peers. length (Values m) = length (Values ?m1)
                                \<and> length (IsAbsent m) = length (Values m)"
      using Cons.prems(4) by auto
    have idx1: "\<forall>k\<in>set is. k < length (Values ?m1)"
      using Cons.prems(2) by auto
    obtain vs abs where
      run: "mergeLoop is peers (?m1, errs, False)
            = Inr (?m1\<lparr>Values := vs, IsAbsent := abs\<rparr>, errs, False)"
      and len: "length vs = ?n" "length abs = ?n"
      and pt: "\<forall>j<?n. if j \<in> set is \<and> IsAbsent ?m1 ! j \<and> ?donors j \<noteq> []
                      then \<not> abs ! j \<and> vs ! j = Values (last (?donors j)) ! j
                      else abs ! j = IsAbsent ?m1 ! j \<and> vs ! j = Values ?m1 ! j"
      using Cons.IH [OF i(3) idx1 shape1(2) peers1] shape1(1) by auto
    have same: "?m1\<lparr>Values := vs, IsAbsent := abs\<rparr> = metric\<lparr>Values := vs, IsAbsent := abs\<rparr>"
      by simp
    from True Cons.prems(3) i(1) scan run same
    have "mergeLoop (i # is) peers (metric, errs, False)
          = Inr (metric\<lparr>Values := vs, IsAbsent := abs\<rparr>, errs, False)"
      by simp
    moreover
    have "if j \<in> set (i # is) \<and> IsAbsent metric ! j \<and> ?donors j \<noteq> []
          then \<not> abs ! j \<and> vs ! j = Values (last (?donors j)) ! j
          else abs ! j = IsAbsent metric ! j \<and> vs ! j = Values metric ! j" if j: "j < ?n" for j
    proof (cases "j = i")
      case eq: True
      from pt j eq i(2) have "abs ! i = IsAbsent ?m1 ! i \<and> vs ! i = Values ?m1 ! i"
        by auto
      with eq True i(1) Cons.prems(3) show ?thesis
        by (cases "?donors i = []") auto
    next
      case ne: False
      then have "IsAbsent ?m1 ! j = IsAbsent metric ! j" "Values ?m1 ! j = Values metric ! j"
        by auto
      with pt j ne show ?thesis by auto
    qed
    ultimately show ?thesis using len by blast
  qed
qed

text \<open>
  With value sequences of one length, \<^verbatim>\<open>mergeValues\<close> keeps every present base
  sample, fills an absent one from the \<^emph>\<open>last\<close> peer that has it, and leaves it
  absent when no peer has it; the render-error counter is unchanged.
\<close>

lemma mergeValues_equal_length:
  assumes "length (IsAbsent metric) = length (Values metric)"
    and "\<forall>m\<in>set peers. length (Values m) = length (Values metric)
                         \<and> length (IsAbsent m) = length (Values m)"
  shows "\<exists>vs abs.
           mergeValues metric (d0 # peers) errs = Inr (metric\<lparr>Values := vs, IsAbsent := abs\<rparr>, errs)
         \<and> length vs = length (Values metric) \<and> length abs = length (Values metric)
         \<and> (\<forall>i<length (Values metric).
               if IsAbsent metric ! i \<and> filter (\<lambda>m. \<not> IsAbsent m ! i) peers \<noteq> []
               then \<not> abs ! i \<and> vs ! i = Values (last (filter (\<lambda>m. \<not> IsAbsent m ! i) peers)) ! i
               else abs ! i = IsAbsent metric ! i \<and> vs ! i = Values metric ! i)"
proof -
  obtain vs abs where
    "mergeLoop [0..<length (Values metric)] peers (metric, errs, False)
       = Inr (metric\<lparr>Values := vs, IsAbsent := abs\<rparr>, errs, False)"
    "length vs = length (Values metric)" "length abs = length (Values metric)"
    "\<forall>i<length (Values metric).
       if i \<in> set [0..<length (Values metric)] \<and> IsAbsent metric ! i
          \<and> filter (\<lambda>m. \<not> IsAbsent m ! i) peers \<noteq> []
       then \<not> abs ! i \<and> vs ! i = Values (last (filter (\<lambda>m. \<not> IsAbsent m ! i) peers)) ! i
       else abs ! i = IsAbsent metric ! i \<and> vs ! i = Values metric ! i"
    using mergeLoop_equal_length [of "[0..<length (Values metric)]" metric peers errs] assms
    by auto
  then have "mergeValues metric (d0 # peers) errs = Inr (metric\<lparr>Values := vs, IsAbsent := abs\<rparr>, errs)
         \<and> length vs = length (Values metric) \<and> length abs = length (Values metric)
         \<and> (\<forall>i<length (Values metric).
               if IsAbsent metric ! i \<and> filter (\<lambda>m. \<not> IsAbsent m ! i) peers \<noteq> []
               then \<not> abs ! i \<and> vs ! i = Values (last (filter (\<lambda>m. \<not> IsAbsent m ! i) peers)) ! i
               else abs ! i = IsAbsent metric ! i \<and> vs ! i = Values metric ! i)"
    by (simp add: mergeValues_def)
  then show ?thesis by blast
qed


text \<open>
  C1. The claim: with value sequences of one length, an absent base sample is filled
  from the first peer, in peer order, that has the sample, and the scan of the peers
  stops there. The inner loop of \<^verbatim>\<open>mergeValues\<close> has no \<^verbatim>\<open>break\<close> after the store
  under the comment \<^verbatim>\<open>// found one\<close>, so a later present peer overwrites the fill.
  Here the base, of one sample, is absent at index 0, the first peer has the sample 1
  and the second peer has the sample 2: the merged sample is 2.
\<close>

theorem mergeValues_keeps_last_peer:
  "mergeValues
     \<lparr>Name = ''m'', StartTime = 0, StopTime = 60, StepTime = 60,
      Values = [0::int], IsAbsent = [True]\<rparr>
     [\<lparr>Name = ''m'', StartTime = 0, StopTime = 60, StepTime = 60,
       Values = [0], IsAbsent = [True]\<rparr>,
      \<lparr>Name = ''m'', StartTime = 0, StopTime = 60, StepTime = 60,
       Values = [1], IsAbsent = [False]\<rparr>,
      \<lparr>Name = ''m'', StartTime = 0, StopTime = 60, StepTime = 60,
       Values = [2], IsAbsent = [False]\<rparr>] 0
   = Inr (\<lparr>Name = ''m'', StartTime = 0, StopTime = 60, StepTime = 60,
           Values = [2], IsAbsent = [False]\<rparr>, 0)"
  by (simp add: mergeValues_def)

subsection \<open>Length mismatch\<close>

text \<open>
  C3. Let \<open>i0\<close> be the first absent index of the base and \<open>j0\<close> the first peer
  whose value sequence has another length than the base's. The scan at \<open>i0\<close> reaches
  that peer: the peers before it have filled index \<open>i0\<close> if one of them has the
  sample, the render-error counter goes up by one, and nothing else is filled, at no
  later index and from no peer. The merged response is the base with the fill at
  \<open>i0\<close>.
\<close>

theorem mergeValues_length_mismatch:
  assumes len: "length (IsAbsent metric) = length (Values metric)"
    and i0: "i0 < length (Values metric)" "IsAbsent metric ! i0" "\<forall>k<i0. \<not> IsAbsent metric ! k"
    and j0: "j0 < length peers" "length (Values (peers ! j0)) \<noteq> length (Values metric)"
    and before: "\<forall>j<j0. length (Values (peers ! j)) = length (Values metric)
                     \<and> length (IsAbsent (peers ! j)) = length (Values (peers ! j))"
  shows "mergeValues metric (d0 # peers) errs =
         Inr (let donors = filter (\<lambda>m. \<not> IsAbsent m ! i0) (take j0 peers) in
              if donors = [] then metric
              else metric\<lparr>IsAbsent := (IsAbsent metric)[i0 := False],
                          Values := (Values metric)[i0 := Values (last donors) ! i0]\<rparr>,
              errs + 1)"
proof -
  let ?n = "length (Values metric)"
  let ?donors = "filter (\<lambda>m. \<not> IsAbsent m ! i0) (take j0 peers)"
  let ?m' = "if ?donors = [] then metric
             else metric\<lparr>IsAbsent := (IsAbsent metric)[i0 := False],
                         Values := (Values metric)[i0 := Values (last ?donors) ! i0]\<rparr>"
  have idx: "[0..<?n] = [0..<i0] @ i0 # [Suc i0..<?n]"
    using i0(1) by (metis less_imp_le_nat upt_add_eq_append upt_conv_Cons le0 le_add_diff_inverse)
  have prs: "peers = take j0 peers @ (peers ! j0) # drop (Suc j0) peers"
    using j0(1) by (simp add: id_take_nth_drop [symmetric])
  have pre: "\<forall>m\<in>set (take j0 peers).
               length (Values m) = length (Values metric) \<and> i0 < length (IsAbsent m)"
  proof
    fix m assume "m \<in> set (take j0 peers)"
    then obtain j where "j < j0" "m = peers ! j"
      using j0(1) by (auto simp: in_set_conv_nth)
    with before i0(1) show "length (Values m) = length (Values metric) \<and> i0 < length (IsAbsent m)"
      by auto
  qed
  have "scanPeers i0 (take j0 peers @ (peers ! j0) # drop (Suc j0) peers) metric errs
        = scanPeers i0 ((peers ! j0) # drop (Suc j0) peers) ?m' errs"
    using scanPeers_fill [OF pre i0(1), of "(peers ! j0) # drop (Suc j0) peers" errs] len i0(1)
    by (simp add: Let_def)
  also have "\<dots> = Inr (?m', errs + 1, True)"
    using j0(2) by simp
  finally have scan: "scanPeers i0 peers metric errs = Inr (?m', errs + 1, True)"
    using prs by simp
  have "mergeLoop ([0..<i0] @ i0 # [Suc i0..<?n]) peers (metric, errs, False)
        = mergeLoop (i0 # [Suc i0..<?n]) peers (metric, errs, False)"
    using i0 len by (intro mergeLoop_skip_present) simp
  also have "\<dots> = mergeLoop [Suc i0..<?n] peers (?m', errs + 1, True)"
    using i0 len scan by simp
  also have "\<dots> = Inr (?m', errs + 1, True)"
    using len by (intro mergeLoop_after_mismatch) simp
  finally show ?thesis
    using idx by (simp add: mergeValues_def Let_def)
qed

text \<open>The base misses samples 1 and 3; the first peer has every sample, the second
  peer is one sample longer. Sample 1 is filled from the first peer, sample 3 is not.\<close>

theorem mergeValues_length_mismatch_witness:
  "mergeValues
     \<lparr>Name = ''m'', StartTime = 0, StopTime = 240, StepTime = 60,
      Values = [1, 0, 3, 0 :: int], IsAbsent = [False, True, False, True]\<rparr>
     [\<lparr>Name = ''m'', StartTime = 0, StopTime = 240, StepTime = 60,
       Values = [1, 0, 3, 0], IsAbsent = [False, True, False, True]\<rparr>,
      \<lparr>Name = ''m'', StartTime = 0, StopTime = 240, StepTime = 60,
       Values = [9, 2, 9, 9], IsAbsent = [False, False, False, False]\<rparr>,
      \<lparr>Name = ''m'', StartTime = 0, StopTime = 300, StepTime = 60,
       Values = [7, 7, 7, 7, 7], IsAbsent = [False, False, False, False, False]\<rparr>] 5
   = Inr (\<lparr>Name = ''m'', StartTime = 0, StopTime = 240, StepTime = 60,
           Values = [1, 2, 3, 0], IsAbsent = [False, False, False, True]\<rparr>, 6)"
  using mergeValues_length_mismatch
    [of "\<lparr>Name = ''m'', StartTime = 0, StopTime = 240, StepTime = 60,
          Values = [1, 0, 3, 0 :: int], IsAbsent = [False, True, False, True]\<rparr>"
        "Suc 0" "Suc 0"
        "[\<lparr>Name = ''m'', StartTime = 0, StopTime = 240, StepTime = 60,
           Values = [9, 2, 9, 9], IsAbsent = [False, False, False, False]\<rparr>,
          \<lparr>Name = ''m'', StartTime = 0, StopTime = 300, StepTime = 60,
           Values = [7, 7, 7, 7, 7], IsAbsent = [False, False, False, False, False]\<rparr>]"
        "\<lparr>Name = ''m'', StartTime = 0, StopTime = 240, StepTime = 60,
          Values = [1, 0, 3, 0], IsAbsent = [False, True, False, True]\<rparr>" 5]
  by simp

subsection \<open>A base without gaps\<close>

text \<open>
  C10. The peers are read only at an absent index of the base. When the base marks no
  sample absent, \<^verbatim>\<open>mergeValues\<close> returns the base as it is and leaves the
  render-error counter alone, whatever the peers are: a peer of another length goes
  unnoticed.
\<close>

theorem mergeValues_no_absent:
  assumes "length (IsAbsent metric) = length (Values metric)"
    and "\<forall>i<length (Values metric). \<not> IsAbsent metric ! i"
  shows "mergeValues metric decoded errs = Inr (metric, errs)"
proof -
  have "mergeLoop ([0..<length (Values metric)] @ []) (drop 1 decoded) (metric, errs, False)
        = mergeLoop [] (drop 1 decoded) (metric, errs, False)"
    using assms by (intro mergeLoop_skip_present) simp
  then show ?thesis by (simp add: mergeValues_def)
qed

text \<open>A base of two present samples and a peer of three.\<close>

theorem mergeValues_no_absent_witness:
  "mergeValues
     \<lparr>Name = ''m'', StartTime = 0, StopTime = 120, StepTime = 60,
      Values = [1, 2 :: int], IsAbsent = [False, False]\<rparr>
     [\<lparr>Name = ''m'', StartTime = 0, StopTime = 120, StepTime = 60,
       Values = [1, 2], IsAbsent = [False, False]\<rparr>,
      \<lparr>Name = ''m'', StartTime = 0, StopTime = 180, StepTime = 60,
       Values = [7, 8, 9], IsAbsent = [False, False, False]\<rparr>] 0
   = Inr (\<lparr>Name = ''m'', StartTime = 0, StopTime = 120, StepTime = 60,
           Values = [1, 2], IsAbsent = [False, False]\<rparr>, 0)"
  using mergeValues_no_absent
    [of "\<lparr>Name = ''m'', StartTime = 0, StopTime = 120, StepTime = 60,
          Values = [1, 2 :: int], IsAbsent = [False, False]\<rparr>"
        "[\<lparr>Name = ''m'', StartTime = 0, StopTime = 120, StepTime = 60,
           Values = [1, 2], IsAbsent = [False, False]\<rparr>,
          \<lparr>Name = ''m'', StartTime = 0, StopTime = 180, StepTime = 60,
           Values = [7, 8, 9], IsAbsent = [False, False, False]\<rparr>]" 0]
  by (simp add: less_Suc_eq)

section \<open>Properties of handleRenderPB\<close>

subsection \<open>Well-formed responses merge without a run-time error\<close>






subsection \<open>Base selection\<close>




subsection \<open>The base and what is returned\<close>



section \<open>Properties of the scatter\<close>

subsection \<open>What the gather loop collects\<close>


lemma gatherLoop_gathered:
  "gathered (gatherLoop tfirst ch n sched st)
   = gathered st @ filter (\<lambda>r. response r \<noteq> None) (map (\<lambda>(now, k). ch k) (take n sched))"
  by (induction tfirst ch n sched st rule: gatherLoop.induct) (simp_all add: Let_def)


subsection \<open>The returned pairs\<close>




section \<open>Properties of the find handler\<close>

subsection \<open>The loops of findHandlerPB against the union by path\<close>

lemma firstOccurrences_snoc:
  "firstOccurrences (acc @ [e])
   = firstOccurrences acc
     @ (if Path (snd e) \<in> set (map (\<lambda>e. Path (snd e)) acc) then [] else [snd e])"
proof -
  let ?P = "\<lambda>occ k. Path (snd (occ ! k)) \<notin> set (map (\<lambda>e. Path (snd e)) (take k occ))"
  have f: "filter (?P (acc @ [e])) [0..<length acc] = filter (?P acc) [0..<length acc]"
    by (rule filter_cong) (auto simp: nth_append)
  have m: "map (\<lambda>k. snd ((acc @ [e]) ! k)) (filter (?P acc) [0..<length acc])
           = map (\<lambda>k. snd (acc ! k)) (filter (?P acc) [0..<length acc])"
    by (rule map_cong) (auto simp: nth_append)
  show ?thesis
    unfolding firstOccurrences_def using f m by simp
qed

lemma routing_snoc:
  "routing (acc @ [(srv, m)])
   = (routing acc)(Path m \<mapsto> (case routing acc (Path m) of None \<Rightarrow> [] | Some p \<Rightarrow> p) @ [srv])"
  by (rule ext) (force simp: routing_def filter_empty_conv)

lemma routing_None_iff:
  "routing acc p = None \<longleftrightarrow> p \<notin> set (map (\<lambda>e. Path (snd e)) acc)"
  by (simp add: routing_def)

lemma matchLoop_union:
  "matchLoop srv ms (firstOccurrences acc, routing acc)
   = (firstOccurrences (acc @ map (\<lambda>match. (srv, match)) ms),
      routing (acc @ map (\<lambda>match. (srv, match)) ms))"
proof (induction ms arbitrary: acc)
  case Nil
  then show ?case by simp
next
  case (Cons m ms)
  have step: "matchLoop srv (m # ms) (firstOccurrences acc, routing acc)
              = matchLoop srv ms (firstOccurrences (acc @ [(srv, m)]), routing (acc @ [(srv, m)]))"
  proof (cases "routing acc (Path m)")
    case None
    then have "Path m \<notin> set (map (\<lambda>e. Path (snd e)) acc)"
      by (simp add: routing_None_iff)
    with None show ?thesis
      by (simp add: firstOccurrences_snoc routing_snoc)
  next
    case (Some p)
    then have "Path m \<in> set (map (\<lambda>e. Path (snd e)) acc)"
      using routing_None_iff [of acc "Path m"] by auto
    with Some show ?thesis
      by (simp add: firstOccurrences_snoc routing_snoc)
  qed
  show ?case
    using Cons.IH [of "acc @ [(srv, m)]"] step by simp
qed

lemma findLoop_union:
  "findLoop unmarshal rs (firstOccurrences acc, routing acc, errs)
   = (firstOccurrences (acc @ occurrences unmarshal rs),
      routing (acc @ occurrences unmarshal rs),
      errs + int (length (filter (\<lambda>r. unmarshal (body r) = None) rs)))"
proof (induction rs arbitrary: acc errs)
  case Nil
  then show ?case by (simp add: occurrences_def)
next
  case (Cons r rs)
  show ?case
  proof (cases "unmarshal (body r)")
    case None
    with Cons.IH [of acc "errs + 1"] show ?thesis
      by (simp add: occurrences_def)
  next
    case (Some metric)
    with Cons.IH [of "acc @ map (\<lambda>match. (server r, match)) (Matches metric)" errs]
    show ?thesis
      by (simp add: occurrences_def matchLoop_union)
  qed
qed

lemma findHandlerPB_union_eq:
  "findHandlerPB unmarshal responses errs
   = (firstOccurrences (occurrences unmarshal responses),
      routing (occurrences unmarshal responses),
      errs + int (length (filter (\<lambda>r. unmarshal (body r) = None) responses)))"
proof -
  have "firstOccurrences [] = []" by (simp add: firstOccurrences_def)
  moreover have "routing [] = Map.empty" by (rule ext) (simp add: routing_def)
  ultimately show ?thesis
    using findLoop_union [of unmarshal responses "[]" errs] by (simp add: findHandlerPB_def)
qed

lemma gathered_gather:
  "gathered (gather cfg servers uri net t0 sched tmo) = multiGet cfg servers uri net t0 sched"
  by (simp add: multiGet_def gather_def gatherLoop_gathered)

subsection \<open>Union by path and the routing cache\<close>

text \<open>
  C7. \<^verbatim>\<open>findHandlerPB\<close> returns the first occurrence of each path, in the order of
  the occurrences (shard-response order, then match order); an occurrence of a path
  already seen adds nothing to that list and appends its server to the list of the
  path, so the entry of a path holds the servers of all its occurrences in order.
  \<^verbatim>\<open>findHandler\<close> writes the entry of every observed path over whatever the cache
  held for it, leaves the other entries alone, and writes the returned list to the
  client.
\<close>

theorem findHandler_union:
  "findHandlerPB unmarshal responses errs
     = (firstOccurrences (occurrences unmarshal responses),
        routing (occurrences unmarshal responses),
        errs + int (length (filter (\<lambda>r. unmarshal (body r) = None) responses)))
   \<and> (multiGet cfg (Backends cfg) uri net t0 sched = responses \<and> responses \<noteq> [] \<longrightarrow>
        fst (findHandler unmarshal cfg m format query uri net t0 sched)
          = findWrite format query (firstOccurrences (occurrences unmarshal responses))
      \<and> fst (snd (findHandler unmarshal cfg m format query uri net t0 sched))
          = cfg\<lparr>metricPaths :=
                  (\<lambda>p. case routing (occurrences unmarshal responses) p of
                         None \<Rightarrow> metricPaths cfg p
                       | Some bs \<Rightarrow> Some (Some bs))\<rparr>)"
proof (intro conjI impI)
  show pb: "findHandlerPB unmarshal responses errs
     = (firstOccurrences (occurrences unmarshal responses),
        routing (occurrences unmarshal responses),
        errs + int (length (filter (\<lambda>r. unmarshal (body r) = None) responses)))" for errs
    by (rule findHandlerPB_union_eq)
  assume a: "multiGet cfg (Backends cfg) uri net t0 sched = responses \<and> responses \<noteq> []"
  show "fst (findHandler unmarshal cfg m format query uri net t0 sched)
          = findWrite format query (firstOccurrences (occurrences unmarshal responses))"
    using a by (simp add: findHandler_def Let_def gathered_gather pb)
  show "fst (snd (findHandler unmarshal cfg m format query uri net t0 sched))
          = cfg\<lparr>metricPaths :=
                  (\<lambda>p. case routing (occurrences unmarshal responses) p of
                         None \<Rightarrow> metricPaths cfg p
                       | Some bs \<Rightarrow> Some (Some bs))\<rparr>"
    using a by (simp add: findHandler_def Let_def gathered_gather pb updateCache_def)
qed

text \<open>Backends A and B; A reports \<open>x.y\<close>, B reports \<open>x.y\<close> and \<open>x.z\<close>. Two records
  are returned, and the cache, which sent \<open>x.y\<close> to C and \<open>q\<close> to A, now has
  \<open>x.y\<close> at A and B, \<open>x.z\<close> at B and \<open>q\<close> at A.\<close>

theorem findHandler_union_witness:
  "multiGet \<lparr>Backends = [''A'', ''B''], TimeoutMs = 2000, TimeoutMsAfterFirstSeen = 500,
             metricPaths = [''x.y'' \<mapsto> Some [''C''], ''q'' \<mapsto> Some [''A'']]\<rparr>
     [''A'', ''B''] ''/metrics/find/?query=x.*''
     (\<lambda>k. if k = 0 then Status 200 (Some [1]) else Status 200 (Some [2])) 0 [(10, 0), (20, 1)]
   = [\<lparr>server = ''A'', response = Some [1]\<rparr>, \<lparr>server = ''B'', response = Some [2]\<rparr>]
   \<and> fst (findHandler
        (\<lambda>b. if b = [1] then Some \<lparr>Name_Glob = ''x.*'', Matches = [\<lparr>Path = ''x.y'', IsLeaf = True\<rparr>]\<rparr>
             else if b = [2]
             then Some \<lparr>Name_Glob = ''x.*'', Matches = [\<lparr>Path = ''x.y'', IsLeaf = False\<rparr>,
                                                       \<lparr>Path = ''x.z'', IsLeaf = True\<rparr>]\<rparr>
             else None)
        \<lparr>Backends = [''A'', ''B''], TimeoutMs = 2000, TimeoutMsAfterFirstSeen = 500,
         metricPaths = [''x.y'' \<mapsto> Some [''C''], ''q'' \<mapsto> Some [''A'']]\<rparr>
        \<lparr>FindRequests = 0, FindErrors = 0, RenderRequests = 0, RenderErrors = 0, Timeouts = 0\<rparr>
        ''protobuf'' ''x.*'' ''/metrics/find/?query=x.*''
        (\<lambda>k. if k = 0 then Status 200 (Some [1]) else Status 200 (Some [2])) 0 [(10, 0), (20, 1)])
     = (Wrote ''application/protobuf''
          (Protobuf_Glob \<lparr>Name_Glob = ''x.*'',
                          Matches = [\<lparr>Path = ''x.y'', IsLeaf = True\<rparr>,
                                     \<lparr>Path = ''x.z'', IsLeaf = True\<rparr>]\<rparr>) :: int reply)
   \<and> metricPaths (fst (snd (findHandler
        (\<lambda>b. if b = [1] then Some \<lparr>Name_Glob = ''x.*'', Matches = [\<lparr>Path = ''x.y'', IsLeaf = True\<rparr>]\<rparr>
             else if b = [2]
             then Some \<lparr>Name_Glob = ''x.*'', Matches = [\<lparr>Path = ''x.y'', IsLeaf = False\<rparr>,
                                                       \<lparr>Path = ''x.z'', IsLeaf = True\<rparr>]\<rparr>
             else None)
        \<lparr>Backends = [''A'', ''B''], TimeoutMs = 2000, TimeoutMsAfterFirstSeen = 500,
         metricPaths = [''x.y'' \<mapsto> Some [''C''], ''q'' \<mapsto> Some [''A'']]\<rparr>
        \<lparr>FindRequests = 0, FindErrors = 0, RenderRequests = 0, RenderErrors = 0, Timeouts = 0\<rparr>
        ''protobuf'' ''x.*'' ''/metrics/find/?query=x.*''
        (\<lambda>k. if k = 0 then Status 200 (Some [1]) else Status 200 (Some [2])) 0 [(10, 0), (20, 1)]
        :: int reply \<times> Config \<times> Metrics)))
     = [''x.y'' \<mapsto> Some [''A'', ''B''], ''x.z'' \<mapsto> Some [''B''], ''q'' \<mapsto> Some [''A'']]"
proof -
  let ?cfg = "\<lparr>Backends = [''A'', ''B''], TimeoutMs = 2000, TimeoutMsAfterFirstSeen = 500,
               metricPaths = [''x.y'' \<mapsto> Some [''C''], ''q'' \<mapsto> Some [''A'']]\<rparr>"
  let ?net = "\<lambda>k::nat. if k = 0 then Status 200 (Some [1]) else Status 200 (Some [2::byte])"
  let ?U = "\<lambda>b::byte list.
        if b = [1] then Some \<lparr>Name_Glob = ''x.*'', Matches = [\<lparr>Path = ''x.y'', IsLeaf = True\<rparr>]\<rparr>
        else if b = [2]
        then Some \<lparr>Name_Glob = ''x.*'', Matches = [\<lparr>Path = ''x.y'', IsLeaf = False\<rparr>,
                                                  \<lparr>Path = ''x.z'', IsLeaf = True\<rparr>]\<rparr>
        else None"
  let ?R = "[\<lparr>server = ''A'', response = Some [1]\<rparr>, \<lparr>server = ''B'', response = Some [2::byte]\<rparr>]"
  let ?m = "\<lparr>FindRequests = 0, FindErrors = 0, RenderRequests = 0, RenderErrors = 0, Timeouts = 0\<rparr>"
  have h: "multiGet ?cfg [''A'', ''B''] ''/metrics/find/?query=x.*'' ?net 0 [(10, 0), (20, 1)] = ?R"
    by (simp add: multiGet_def gather_def singleGet_def numeral_2_eq_2 Let_def)
  have occ: "occurrences ?U ?R = [(''A'', \<lparr>Path = ''x.y'', IsLeaf = True\<rparr>),
                                  (''B'', \<lparr>Path = ''x.y'', IsLeaf = False\<rparr>),
                                  (''B'', \<lparr>Path = ''x.z'', IsLeaf = True\<rparr>)]"
    by (simp add: occurrences_def body_def)
  let ?F = "findHandler ?U ?cfg ?m ''protobuf'' ''x.*'' ''/metrics/find/?query=x.*'' ?net 0
              [(10, 0), (20, 1)] :: int reply \<times> Config \<times> Metrics"
  have ne: "?R \<noteq> []" by simp
  note inst = findHandler_union [of ?U ?R 0 ?cfg "''/metrics/find/?query=x.*''" ?net 0
      "[(10, 0), (20, 1)]" ?m "''protobuf''" "''x.*''"]
  from inst
  have imp: "multiGet ?cfg (Backends ?cfg) ''/metrics/find/?query=x.*'' ?net 0 [(10, 0), (20, 1)] = ?R
               \<and> ?R \<noteq> [] \<longrightarrow>
             fst ?F = findWrite ''protobuf'' ''x.*'' (firstOccurrences (occurrences ?U ?R))
           \<and> fst (snd ?F)
               = ?cfg\<lparr>metricPaths := (\<lambda>p. case routing (occurrences ?U ?R) p of
                                             None \<Rightarrow> metricPaths ?cfg p
                                           | Some bs \<Rightarrow> Some (Some bs))\<rparr>"
    by (rule conjunct2)
  have h': "multiGet ?cfg (Backends ?cfg) ''/metrics/find/?query=x.*'' ?net 0 [(10, 0), (20, 1)] = ?R"
    using h by simp
  from imp h' ne
  have c1: "fst ?F = findWrite ''protobuf'' ''x.*'' (firstOccurrences (occurrences ?U ?R))"
    by blast
  from imp h' ne
  have c2: "fst (snd ?F)
            = ?cfg\<lparr>metricPaths := (\<lambda>p. case routing (occurrences ?U ?R) p of
                                          None \<Rightarrow> metricPaths ?cfg p
                                        | Some bs \<Rightarrow> Some (Some bs))\<rparr>"
    by blast
  have r1: "fst ?F = Wrote ''application/protobuf''
                 (Protobuf_Glob \<lparr>Name_Glob = ''x.*'',
                                 Matches = [\<lparr>Path = ''x.y'', IsLeaf = True\<rparr>,
                                            \<lparr>Path = ''x.z'', IsLeaf = True\<rparr>]\<rparr>)"
    unfolding c1 occ by (simp add: firstOccurrences_def findWrite_def)
  have r2: "metricPaths (fst (snd ?F))
            = [''x.y'' \<mapsto> Some [''A'', ''B''], ''x.z'' \<mapsto> Some [''B''], ''q'' \<mapsto> Some [''A'']]"
    unfolding c2 occ by (auto simp: routing_def fun_eq_iff)
  from h r1 r2 show ?thesis by simp
qed

subsection \<open>Responses that do not decode\<close>

lemma findHandler_all_undecodable:
  assumes "multiGet cfg (Backends cfg) uri net t0 sched = responses" and "responses \<noteq> []"
    and "\<forall>r\<in>set responses. unmarshal (body r) = None"
  shows "fst (findHandler unmarshal cfg m format query uri net t0 sched) = findWrite format query []"
    and "status (fst (findHandler unmarshal cfg m format query uri net t0 sched)) = 200"
proof -
  have "occurrences unmarshal responses = []"
    using assms(3) by (simp add: occurrences_def)
  then have pb: "fst (findHandlerPB unmarshal responses errs) = []" for errs
    by (simp add: findHandlerPB_union_eq firstOccurrences_def)
  show eq: "fst (findHandler unmarshal cfg m format query uri net t0 sched)
            = findWrite format query []"
    using assms(1,2) pb
    by (simp add: findHandler_def Let_def gathered_gather split_def)
  show "status (fst (findHandler unmarshal cfg m format query uri net t0 sched)) = 200"
    unfolding eq by (simp add: findWrite_def)
qed


text \<open>
  C2. The claim: when the scatter returns responses and none decodes, the find request
  ends with HTTP 500. \<^verbatim>\<open>handleRenderPB\<close> has that test
  (\<^verbatim>\<open>len(decoded) == 0\<close>); \<^verbatim>\<open>findHandler\<close> tests the scatter's result only, and
  after \<^verbatim>\<open>findHandlerPB\<close> it goes on to the \<^verbatim>\<open>switch\<close>: every undecodable body
  counts one find error, the cache is left as it is, and an empty result is written
  with status 200.
  Here one backend answers 200 with the one byte 255, which is no protobuf message.
\<close>

theorem findHandler_undecodable_status_200:
  "findHandler
     (\<lambda>b. if b = [255] then None else Some \<lparr>Name_Glob = [], Matches = []\<rparr>)
     \<lparr>Backends = [''A''], TimeoutMs = 2000, TimeoutMsAfterFirstSeen = 500,
      metricPaths = Map.empty\<rparr>
     \<lparr>FindRequests = 0, FindErrors = 0, RenderRequests = 0, RenderErrors = 0, Timeouts = 0\<rparr>
     ''json'' ''foo.*'' ''/metrics/find/?format=protobuf&query=foo.%2A''
     (\<lambda>k. Status 200 (Some [255])) 0 [(10, 0)]
   = (Wrote ''application/json'' (JSON NilSlice) :: int reply,
      \<lparr>Backends = [''A''], TimeoutMs = 2000, TimeoutMsAfterFirstSeen = 500,
       metricPaths = Map.empty\<rparr>,
      \<lparr>FindRequests = 1, FindErrors = 1, RenderRequests = 0, RenderErrors = 0, Timeouts = 0\<rparr>)
   \<and> status (Wrote ''application/json'' (JSON NilSlice) :: int reply) = 200"
  by (simp add: findHandler_def gather_def singleGet_def findHandlerPB_def body_def
      findWrite_def updateCache_def Let_def)

section \<open>The scatter of a render request\<close>

lemma started_gatherLoop: "started (gatherLoop tfirst ch n sched st) = started st"
  by (induction tfirst ch n sched st rule: gatherLoop.induct) (simp_all add: Let_def)

lemma started_gather:
  "started (gather cfg servers uri net t0 sched tmo) = map (\<lambda>server. (uri, server)) servers"
  by (simp add: gather_def started_gatherLoop)

text \<open>
  C8. A render request with a target starts one \<^verbatim>\<open>singleGet\<close> with the rewritten URI
  for every configured backend, in the order of the configuration, when the cache has no
  entry for the target or an entry that is nil or empty; when the entry is a list with
  some backend in it, it starts one \<^verbatim>\<open>singleGet\<close> for every backend of the entry and
  none for any other. (A request without a target is answered with status 400 before
  \<^verbatim>\<open>multiGet\<close> is called: it has no scatter.)
\<close>

theorem renderHandler_scatter:
  assumes "target \<noteq> []"
  shows "(metricPaths cfg target = None \<or> metricPaths cfg target = Some None
            \<or> metricPaths cfg target = Some (Some []) \<longrightarrow>
          fst (renderHandler unmarshal cfg m target format requri uri net t0 sched)
            = map (\<lambda>server. (uri, server)) (Backends cfg))
       \<and> (metricPaths cfg target = Some (Some bs) \<and> bs \<noteq> [] \<longrightarrow>
          fst (renderHandler unmarshal cfg m target format requri uri net t0 sched)
            = map (\<lambda>server. (uri, server)) bs)"
proof -
  have "fst (renderHandler unmarshal cfg m target format requri uri net t0 sched)
        = map (\<lambda>server. (uri, server)) (serverListFor cfg target)"
    using assms by (simp add: renderHandler_def Let_def started_gather)
  then show ?thesis
    by (auto simp: serverListFor_def)
qed

text \<open>Backends A and B; the cache has \<open>x.z\<close> at B and \<open>e\<close> at an empty list. A render
  of \<open>x.z\<close> goes to B alone, a render of \<open>e\<close> to A and B.\<close>

theorem renderHandler_scatter_witness:
  "''x.z'' \<noteq> []
   \<and> fst (renderHandler (\<lambda>b. None :: int FetchResponse option)
           \<lparr>Backends = [''A'', ''B''], TimeoutMs = 2000, TimeoutMsAfterFirstSeen = 500,
            metricPaths = [''x.z'' \<mapsto> Some [''B''], ''e'' \<mapsto> Some []]\<rparr>
           \<lparr>FindRequests = 0, FindErrors = 0, RenderRequests = 0, RenderErrors = 0, Timeouts = 0\<rparr>
           ''x.z'' ''json'' ''/render/?target=x.z'' ''/render/?format=protobuf&target=x.z''
           (\<lambda>k. TransportError) 0 [])
     = [(''/render/?format=protobuf&target=x.z'', ''B'')]
   \<and> fst (renderHandler (\<lambda>b. None :: int FetchResponse option)
           \<lparr>Backends = [''A'', ''B''], TimeoutMs = 2000, TimeoutMsAfterFirstSeen = 500,
            metricPaths = [''x.z'' \<mapsto> Some [''B''], ''e'' \<mapsto> Some []]\<rparr>
           \<lparr>FindRequests = 0, FindErrors = 0, RenderRequests = 0, RenderErrors = 0, Timeouts = 0\<rparr>
           ''e'' ''json'' ''/render/?target=e'' ''/render/?format=protobuf&target=e''
           (\<lambda>k. TransportError) 0 [])
     = [(''/render/?format=protobuf&target=e'', ''A''),
        (''/render/?format=protobuf&target=e'', ''B'')]"
proof -
  let ?cfg = "\<lparr>Backends = [''A'', ''B''], TimeoutMs = 2000, TimeoutMsAfterFirstSeen = 500,
               metricPaths = [''x.z'' \<mapsto> Some [''B''], ''e'' \<mapsto> Some []]\<rparr>"
  let ?m = "\<lparr>FindRequests = 0, FindErrors = 0, RenderRequests = 0, RenderErrors = 0, Timeouts = 0\<rparr>"
  have t1: "''x.z'' \<noteq> []" by simp
  have t2: "''e'' \<noteq> []" by simp
  have "fst (renderHandler (\<lambda>b. None :: int FetchResponse option) ?cfg ?m
               ''x.z'' ''json'' ''/render/?target=x.z'' ''/render/?format=protobuf&target=x.z''
               (\<lambda>k. TransportError) 0 [])
        = [(''/render/?format=protobuf&target=x.z'', ''B'')]"
    using renderHandler_scatter [OF t1, of ?cfg "\<lambda>b. None :: int FetchResponse option" ?m
        "''json''" "''/render/?target=x.z''" "''/render/?format=protobuf&target=x.z''"
        "\<lambda>k. TransportError" 0 "[]" "[''B'']"]
    by simp
  moreover have "fst (renderHandler (\<lambda>b. None :: int FetchResponse option) ?cfg ?m
               ''e'' ''json'' ''/render/?target=e'' ''/render/?format=protobuf&target=e''
               (\<lambda>k. TransportError) 0 [])
        = [(''/render/?format=protobuf&target=e'', ''A''),
           (''/render/?format=protobuf&target=e'', ''B'')]"
    using renderHandler_scatter [OF t2, of ?cfg "\<lambda>b. None :: int FetchResponse option" ?m
        "''json''" "''/render/?target=e''" "''/render/?format=protobuf&target=e''"
        "\<lambda>k. TransportError" 0 "[]" "[]"]
    by simp
  ultimately show ?thesis by simp
qed

section \<open>The JSON replies\<close>










end
